theory Spec2Isabelle
  imports Main
begin

section \<open>The document-start rule of yamllint\<close>

text \<open>
  A shallow embedding of \<^verbatim>\<open>yamllint/rules/document_start.py\<close>. The rule is one
  generator function, \<^verbatim>\<open>check(conf, token, prev, next, nextnext, context)\<close>, called
  once per token of a YAML token stream; it yields \<^verbatim>\<open>LintProblem\<close> objects.
\<close>

subsection \<open>Data\<close>

text \<open>
  The classes of PyYAML tokens. The rule tests for five of them with
  \<^verbatim>\<open>isinstance\<close>; every other class (scalars, keys, block starts, ...) is
  carried by its name and is never looked at. PyYAML's token classes are all direct
  subclasses of \<^verbatim>\<open>Token\<close>, so \<^verbatim>\<open>isinstance\<close> is equality of classes.
\<close>

datatype token_class =
    StreamStartToken
  | StreamEndToken
  | DocumentStartToken
  | DocumentEndToken
  | DirectiveToken
  | OtherToken string

text \<open>A \<^verbatim>\<open>yaml.Mark\<close>: 0-indexed line and column, Python integers.\<close>

record mark =
  line :: int
  column :: int

record token =
  cls :: token_class
  start_mark :: mark
  end_mark :: mark

text \<open>
  The rule's configuration, the dictionary \<^verbatim>\<open>conf\<close> with the keys of
  \<^verbatim>\<open>CONF\<close>: \<^verbatim>\<open>'present'\<close>, \<^verbatim>\<open>'max-empty-lines-after'\<close> and
  \<^verbatim>\<open>'min-empty-lines-after'\<close>.
\<close>

record conf =
  present :: bool
  max_empty_lines_after :: int
  min_empty_lines_after :: int

definition DEFAULT :: conf where
  "DEFAULT = \<lparr>present = True, max_empty_lines_after = - 1, min_empty_lines_after = 0\<rparr>"

text \<open>\<^verbatim>\<open>LintProblem(line, column, desc)\<close>: a 1-indexed position and a message.\<close>

datatype lint_problem = LintProblem (lp_line: int) (lp_column: int) (desc: string)

subsection \<open>The check\<close>

text \<open>
  \<^verbatim>\<open>isinstance(x, (A, B, ...))\<close> where \<^verbatim>\<open>x\<close> is a token or \<^verbatim>\<open>None\<close>
  (the previous token of the first token of a stream is \<^verbatim>\<open>None\<close>, which is an
  instance of no token class).
\<close>

definition isinstance :: "token option \<Rightarrow> token_class list \<Rightarrow> bool" where
  "isinstance x classes = (case x of None \<Rightarrow> False | Some t \<Rightarrow> cls t \<in> set classes)"

text \<open>
  The local \<^verbatim>\<open>empty_lines\<close> of the source:
  \<^verbatim>\<open>token.start_mark.line - prev.start_mark.line - 1\<close>.
\<close>

definition empty_lines :: "token \<Rightarrow> token \<Rightarrow> int" where
  "empty_lines token prev = line (start_mark token) - line (start_mark prev) - 1"

text \<open>
  The generator, as the list of what it yields, in the order of the yields. The
  arguments \<^verbatim>\<open>next\<close>, \<^verbatim>\<open>nextnext\<close> and \<^verbatim>\<open>context\<close> are part of the signature
  every token rule has.
\<close>

definition check ::
  "conf \<Rightarrow> token \<Rightarrow> token option \<Rightarrow> token option \<Rightarrow> token option \<Rightarrow> 'ctx \<Rightarrow> lint_problem list"
where
  \<open>check conf token prev next nextnext context =
    (if present conf then
       (if isinstance prev [StreamStartToken, DocumentEndToken, DirectiveToken] \<and>
           \<not> isinstance (Some token) [DocumentStartToken, DirectiveToken, StreamEndToken]
        then [LintProblem (line (start_mark token) + 1) 1 ''missing document start "---"'']
        else [])
       @
       (if isinstance prev [DocumentStartToken] then
          (case prev of
             None \<Rightarrow> []
           | Some p \<Rightarrow>
               (if max_empty_lines_after conf \<ge> 0 \<and>
                   empty_lines token p > max_empty_lines_after conf
                then [LintProblem (line (start_mark token) + 1)
                                  (column (start_mark token) + 1)
                                  ''too many empty lines after document start'']
                else [])
               @
               (if min_empty_lines_after conf > 0 \<and>
                   empty_lines token p < min_empty_lines_after conf
                then [LintProblem (line (start_mark token) + 1)
                                  (column (start_mark token) + 1)
                                  ''too few empty lines after document start'']
                else []))
        else [])
     else
       (if isinstance (Some token) [DocumentStartToken]
        then [LintProblem (line (start_mark token) + 1)
                          (column (start_mark token) + 1)
                          ''found forbidden document start "---"'']
        else []))\<close>

subsection \<open>Helper facts\<close>

lemma isinstance_None: "isinstance None classes = False"
  by (simp add: isinstance_def)

lemma isinstance_Some: "isinstance (Some t) classes = (cls t \<in> set classes)"
  by (simp add: isinstance_def)

lemma check_present_None:
  "present conf \<Longrightarrow> check conf token None next nextnext context = []"
  by (simp add: check_def isinstance_None)

lemma check_present_Some:
  \<open>present conf \<Longrightarrow>
   check conf token (Some p) next nextnext context =
     (if cls p \<in> {StreamStartToken, DocumentEndToken, DirectiveToken} \<and>
         cls token \<notin> {DocumentStartToken, DirectiveToken, StreamEndToken}
      then [LintProblem (line (start_mark token) + 1) 1 ''missing document start "---"'']
      else []) @
     (if cls p = DocumentStartToken then
        (if max_empty_lines_after conf \<ge> 0 \<and> empty_lines token p > max_empty_lines_after conf
         then [LintProblem (line (start_mark token) + 1) (column (start_mark token) + 1)
                 ''too many empty lines after document start'']
         else []) @
        (if min_empty_lines_after conf > 0 \<and> empty_lines token p < min_empty_lines_after conf
         then [LintProblem (line (start_mark token) + 1) (column (start_mark token) + 1)
                 ''too few empty lines after document start'']
         else [])
      else [])\<close>
  by (simp add: check_def isinstance_Some)

lemma check_present_DocumentStart:
  \<open>present conf \<Longrightarrow> cls p = DocumentStartToken \<Longrightarrow>
   check conf token (Some p) next nextnext context =
     (if max_empty_lines_after conf \<ge> 0 \<and> empty_lines token p > max_empty_lines_after conf
      then [LintProblem (line (start_mark token) + 1) (column (start_mark token) + 1)
              ''too many empty lines after document start'']
      else []) @
     (if min_empty_lines_after conf > 0 \<and> empty_lines token p < min_empty_lines_after conf
      then [LintProblem (line (start_mark token) + 1) (column (start_mark token) + 1)
              ''too few empty lines after document start'']
      else [])\<close>
  by (simp add: check_present_Some)

lemma check_present_opener:
  \<open>present conf \<Longrightarrow> cls p \<in> {StreamStartToken, DocumentEndToken, DirectiveToken} \<Longrightarrow>
   check conf token (Some p) next nextnext context =
     (if cls token \<notin> {DocumentStartToken, DirectiveToken, StreamEndToken}
      then [LintProblem (line (start_mark token) + 1) 1 ''missing document start "---"'']
      else [])\<close>
  by (auto simp: check_present_Some)

lemma in_check_present:
  \<open>present conf \<Longrightarrow> x \<in> set (check conf token prev next nextnext context) \<Longrightarrow>
   (\<exists>p. prev = Some p \<and>
     (cls p \<in> {StreamStartToken, DocumentEndToken, DirectiveToken} \<and>
      cls token \<notin> {DocumentStartToken, DirectiveToken, StreamEndToken} \<and>
      x = LintProblem (line (start_mark token) + 1) 1 ''missing document start "---"''
     \<or>
      cls p = DocumentStartToken \<and>
      max_empty_lines_after conf \<ge> 0 \<and> empty_lines token p > max_empty_lines_after conf \<and>
      x = LintProblem (line (start_mark token) + 1) (column (start_mark token) + 1)
            ''too many empty lines after document start''
     \<or>
      cls p = DocumentStartToken \<and>
      min_empty_lines_after conf > 0 \<and> empty_lines token p < min_empty_lines_after conf \<and>
      x = LintProblem (line (start_mark token) + 1) (column (start_mark token) + 1)
            ''too few empty lines after document start''))\<close>
proof (cases prev)
  case None
  assume "present conf" "x \<in> set (check conf token prev next nextnext context)"
  with None show ?thesis by (simp add: check_present_None)
next
  case (Some p)
  assume "present conf" "x \<in> set (check conf token prev next nextnext context)"
  with Some show ?thesis
    by (auto simp: check_present_Some split: if_splits)
qed

lemma check_absent:
  \<open>\<not> present conf \<Longrightarrow>
   check conf token prev next nextnext context =
     (if cls token = DocumentStartToken
      then [LintProblem (line (start_mark token) + 1) (column (start_mark token) + 1)
              ''found forbidden document start "---"'']
      else [])\<close>
  by (simp add: check_def isinstance_Some)

lemma in_check_absent:
  \<open>\<not> present conf \<Longrightarrow> x \<in> set (check conf token prev next nextnext context) \<Longrightarrow>
   cls token = DocumentStartToken \<and>
   x = LintProblem (line (start_mark token) + 1) (column (start_mark token) + 1)
         ''found forbidden document start "---"''\<close>
  by (simp add: check_absent split: if_splits)

subsection \<open>Required markers\<close>

text \<open>
  C1. With \<^verbatim>\<open>present\<close> true: when the previous token exists and is a stream start,
  a document end or a directive, and the current token is none of a document start, a
  directive or a stream end, the check yields the problem
  \<open>missing document start "---"\<close> at line \<^verbatim>\<open>token.start_mark.line + 1\<close>, column 1
  (and, the previous token not being a document start, nothing else). In every other case
  (the previous token is absent or of another class, or the current token is a document
  start, a directive or a stream end) no yielded problem carries that message.
\<close>

theorem check_missing_marker:
  \<open>present conf \<Longrightarrow>
   ((\<exists>p. prev = Some p \<and> cls p \<in> {StreamStartToken, DocumentEndToken, DirectiveToken}) \<and>
    cls token \<notin> {DocumentStartToken, DirectiveToken, StreamEndToken} \<longrightarrow>
      check conf token prev next nextnext context =
        [LintProblem (line (start_mark token) + 1) 1 ''missing document start "---"'']) \<and>
   (\<not> ((\<exists>p. prev = Some p \<and> cls p \<in> {StreamStartToken, DocumentEndToken, DirectiveToken}) \<and>
        cls token \<notin> {DocumentStartToken, DirectiveToken, StreamEndToken}) \<longrightarrow>
      (\<forall>x \<in> set (check conf token prev next nextnext context).
         desc x \<noteq> ''missing document start "---"''))\<close>
proof (intro conjI impI ballI)
  assume pr: "present conf"
  assume c: "(\<exists>p. prev = Some p \<and> cls p \<in> {StreamStartToken, DocumentEndToken, DirectiveToken}) \<and>
    cls token \<notin> {DocumentStartToken, DirectiveToken, StreamEndToken}"
  then obtain p where p: "prev = Some p"
    "cls p \<in> {StreamStartToken, DocumentEndToken, DirectiveToken}" by blast
  from c have "cls token \<notin> {DocumentStartToken, DirectiveToken, StreamEndToken}" by blast
  with check_present_opener [OF pr p(2), of token "next" nextnext "context"] p(1)
  show "check conf token prev next nextnext context =
        [LintProblem (line (start_mark token) + 1) 1 ''missing document start \"---\"'']"
    by simp
next
  fix x
  assume pr: "present conf"
  assume c: "\<not> ((\<exists>p. prev = Some p \<and> cls p \<in> {StreamStartToken, DocumentEndToken, DirectiveToken}) \<and>
        cls token \<notin> {DocumentStartToken, DirectiveToken, StreamEndToken})"
  assume x: "x \<in> set (check conf token prev next nextnext context)"
  show "desc x \<noteq> ''missing document start \"---\"''"
    using in_check_present [OF pr x] c by auto
qed

theorem check_missing_marker_witness:
  \<open>present \<lparr>present = True, max_empty_lines_after = - 1, min_empty_lines_after = 0\<rparr> \<and>
   check \<lparr>present = True, max_empty_lines_after = - 1, min_empty_lines_after = 0\<rparr>
     \<lparr>cls = OtherToken ''BlockMappingStartToken'', start_mark = \<lparr>line = 0, column = 0\<rparr>, end_mark = \<lparr>line = 0, column = 0\<rparr>\<rparr>
     (Some \<lparr>cls = StreamStartToken, start_mark = \<lparr>line = 0, column = 0\<rparr>, end_mark = \<lparr>line = 0, column = 0\<rparr>\<rparr>)
     None None () =
   [LintProblem 1 1 ''missing document start "---"''] \<and>
   ''missing document start "---"''
     \<notin> desc ` set (check \<lparr>present = True, max_empty_lines_after = - 1, min_empty_lines_after = 0\<rparr>
     \<lparr>cls = OtherToken ''BlockMappingStartToken'', start_mark = \<lparr>line = 0, column = 0\<rparr>, end_mark = \<lparr>line = 0, column = 0\<rparr>\<rparr>
     (None)
     None None ())\<close>
  using check_missing_marker [of \<open>\<lparr>present = True, max_empty_lines_after = - 1, min_empty_lines_after = 0\<rparr>\<close>
    \<open>Some \<lparr>cls = StreamStartToken, start_mark = \<lparr>line = 0, column = 0\<rparr>, end_mark = \<lparr>line = 0, column = 0\<rparr>\<rparr>\<close>
    \<open>\<lparr>cls = OtherToken ''BlockMappingStartToken'', start_mark = \<lparr>line = 0, column = 0\<rparr>, end_mark = \<lparr>line = 0, column = 0\<rparr>\<rparr>\<close> None None \<open>()\<close>]
    check_missing_marker [of \<open>\<lparr>present = True, max_empty_lines_after = - 1, min_empty_lines_after = 0\<rparr>\<close>
    None
    \<open>\<lparr>cls = OtherToken ''BlockMappingStartToken'', start_mark = \<lparr>line = 0, column = 0\<rparr>, end_mark = \<lparr>line = 0, column = 0\<rparr>\<rparr>\<close> None None \<open>()\<close>]
  by auto

subsection \<open>Empty lines after the marker\<close>

text \<open>
  C2. With \<^verbatim>\<open>present\<close> true and a previous token that is a document start, let
  \<open>empty_lines = token.start_mark.line - prev.start_mark.line - 1\<close>. The check yields,
  at the current token's line + 1 and column + 1, \<open>too many empty lines after document
  start\<close> exactly when \<^verbatim>\<open>max-empty-lines-after\<close> is at least 0 and less than
  \<open>empty_lines\<close>, then \<open>too few empty lines after document start\<close> exactly when
  \<^verbatim>\<open>min-empty-lines-after\<close> is positive and greater than \<open>empty_lines\<close>, and
  nothing else.
\<close>

theorem check_empty_lines:
  \<open>present conf \<Longrightarrow> cls p = DocumentStartToken \<Longrightarrow>
   check conf token (Some p) next nextnext context =
     (if max_empty_lines_after conf \<ge> 0 \<and>
         line (start_mark token) - line (start_mark p) - 1 > max_empty_lines_after conf
      then [LintProblem (line (start_mark token) + 1) (column (start_mark token) + 1)
              ''too many empty lines after document start'']
      else []) @
     (if min_empty_lines_after conf > 0 \<and>
         line (start_mark token) - line (start_mark p) - 1 < min_empty_lines_after conf
      then [LintProblem (line (start_mark token) + 1) (column (start_mark token) + 1)
              ''too few empty lines after document start'']
      else [])\<close>
  by (simp add: check_present_DocumentStart empty_lines_def)

theorem check_empty_lines_witness:
  \<open>present \<lparr>present = True, max_empty_lines_after = - 1, min_empty_lines_after = 1\<rparr> \<and>
   cls \<lparr>cls = DocumentStartToken, start_mark = \<lparr>line = 0, column = 0\<rparr>, end_mark = \<lparr>line = 0, column = 3\<rparr>\<rparr> = DocumentStartToken \<and>
   check \<lparr>present = True, max_empty_lines_after = - 1, min_empty_lines_after = 1\<rparr>
     \<lparr>cls = OtherToken ''BlockMappingStartToken'', start_mark = \<lparr>line = 1, column = 0\<rparr>, end_mark = \<lparr>line = 1, column = 0\<rparr>\<rparr>
     (Some \<lparr>cls = DocumentStartToken, start_mark = \<lparr>line = 0, column = 0\<rparr>, end_mark = \<lparr>line = 0, column = 3\<rparr>\<rparr>)
     None None () =
   [LintProblem 2 1 ''too few empty lines after document start'']\<close>
  using check_empty_lines [of \<open>\<lparr>present = True, max_empty_lines_after = - 1, min_empty_lines_after = 1\<rparr>\<close>
    \<open>\<lparr>cls = DocumentStartToken, start_mark = \<lparr>line = 0, column = 0\<rparr>, end_mark = \<lparr>line = 0, column = 3\<rparr>\<rparr>\<close>
    \<open>\<lparr>cls = OtherToken ''BlockMappingStartToken'', start_mark = \<lparr>line = 1, column = 0\<rparr>, end_mark = \<lparr>line = 1, column = 0\<rparr>\<rparr>\<close> None None \<open>()\<close>]
  by simp

subsection \<open>Forbidden markers\<close>

text \<open>
  C3. With \<^verbatim>\<open>present\<close> false the check yields exactly one problem,
  \<open>found forbidden document start "---"\<close> at the current token's line + 1 and
  column + 1, when the current token is a document start, and nothing otherwise: the
  result depends neither on the previous token nor on the two empty-line options.
\<close>

theorem check_forbidden:
  \<open>\<not> present conf \<Longrightarrow>
   check conf token prev next nextnext context =
     (if cls token = DocumentStartToken
      then [LintProblem (line (start_mark token) + 1) (column (start_mark token) + 1)
              ''found forbidden document start "---"'']
      else [])\<close>
  by (simp add: check_def isinstance_Some)

theorem check_forbidden_witness:
  \<open>\<not> present \<lparr>present = False, max_empty_lines_after = - 1, min_empty_lines_after = 0\<rparr> \<and>
   check \<lparr>present = False, max_empty_lines_after = - 1, min_empty_lines_after = 0\<rparr>
     \<lparr>cls = DocumentStartToken, start_mark = \<lparr>line = 0, column = 0\<rparr>, end_mark = \<lparr>line = 0, column = 3\<rparr>\<rparr>
     (Some \<lparr>cls = StreamStartToken, start_mark = \<lparr>line = 0, column = 0\<rparr>, end_mark = \<lparr>line = 0, column = 0\<rparr>\<rparr>)
     None None () =
   [LintProblem 1 1 ''found forbidden document start "---"'']\<close>
  using check_forbidden [of \<open>\<lparr>present = False, max_empty_lines_after = - 1, min_empty_lines_after = 0\<rparr>\<close>
    \<open>\<lparr>cls = DocumentStartToken, start_mark = \<lparr>line = 0, column = 0\<rparr>, end_mark = \<lparr>line = 0, column = 3\<rparr>\<rparr>\<close>
    \<open>Some \<lparr>cls = StreamStartToken, start_mark = \<lparr>line = 0, column = 0\<rparr>, end_mark = \<lparr>line = 0, column = 0\<rparr>\<rparr>\<close> None None \<open>()\<close>]
  by simp

subsection \<open>Contradictory bounds\<close>

text \<open>
  C4. There is an input on which one call yields both the \<open>too many\<close> and the
  \<open>too few\<close> problem; and whenever \<^verbatim>\<open>present\<close> is true, the previous token is a
  document start, \<open>0 \<le> max-empty-lines-after < min-empty-lines-after\<close> and
  \<open>empty_lines\<close> lies strictly between the two bounds, the check yields both, the
  \<open>too many\<close> problem first.
\<close>

theorem check_contradictory_bounds:
  \<open>(\<exists>conf token p.
      present conf \<and> cls p = DocumentStartToken \<and>
      ''too many empty lines after document start''
        \<in> desc ` set (check conf token (Some p) None None ()) \<and>
      ''too few empty lines after document start''
        \<in> desc ` set (check conf token (Some p) None None ())) \<and>
   (present conf \<and> cls p = DocumentStartToken \<and>
    0 \<le> max_empty_lines_after conf \<and>
    max_empty_lines_after conf < min_empty_lines_after conf \<and>
    max_empty_lines_after conf < empty_lines token p \<and>
    empty_lines token p < min_empty_lines_after conf \<longrightarrow>
    check conf token (Some p) next nextnext context =
      [LintProblem (line (start_mark token) + 1) (column (start_mark token) + 1)
         ''too many empty lines after document start'',
       LintProblem (line (start_mark token) + 1) (column (start_mark token) + 1)
         ''too few empty lines after document start''])\<close>
proof (intro conjI impI)
  have \<open>check \<lparr>present = True, max_empty_lines_after = 0, min_empty_lines_after = 2\<rparr>
     \<lparr>cls = OtherToken ''BlockMappingStartToken'', start_mark = \<lparr>line = 2, column = 0\<rparr>, end_mark = \<lparr>line = 2, column = 0\<rparr>\<rparr>
     (Some \<lparr>cls = DocumentStartToken, start_mark = \<lparr>line = 0, column = 0\<rparr>, end_mark = \<lparr>line = 0, column = 3\<rparr>\<rparr>)
     None None () =
     [LintProblem 3 1 ''too many empty lines after document start'',
      LintProblem 3 1 ''too few empty lines after document start'']\<close>
    by (simp add: check_present_DocumentStart empty_lines_def)
  then have \<open>present \<lparr>present = True, max_empty_lines_after = 0, min_empty_lines_after = 2\<rparr> \<and>
      cls \<lparr>cls = DocumentStartToken, start_mark = \<lparr>line = 0, column = 0\<rparr>, end_mark = \<lparr>line = 0, column = 3\<rparr>\<rparr> = DocumentStartToken \<and>
      ''too many empty lines after document start''
        \<in> desc ` set (check \<lparr>present = True, max_empty_lines_after = 0, min_empty_lines_after = 2\<rparr>
     \<lparr>cls = OtherToken ''BlockMappingStartToken'', start_mark = \<lparr>line = 2, column = 0\<rparr>, end_mark = \<lparr>line = 2, column = 0\<rparr>\<rparr>
     (Some \<lparr>cls = DocumentStartToken, start_mark = \<lparr>line = 0, column = 0\<rparr>, end_mark = \<lparr>line = 0, column = 3\<rparr>\<rparr>)
     None None ()) \<and>
      ''too few empty lines after document start''
        \<in> desc ` set (check \<lparr>present = True, max_empty_lines_after = 0, min_empty_lines_after = 2\<rparr>
     \<lparr>cls = OtherToken ''BlockMappingStartToken'', start_mark = \<lparr>line = 2, column = 0\<rparr>, end_mark = \<lparr>line = 2, column = 0\<rparr>\<rparr>
     (Some \<lparr>cls = DocumentStartToken, start_mark = \<lparr>line = 0, column = 0\<rparr>, end_mark = \<lparr>line = 0, column = 3\<rparr>\<rparr>)
     None None ())\<close>
    by simp
  then show \<open>\<exists>conf token p.
      present conf \<and> cls p = DocumentStartToken \<and>
      ''too many empty lines after document start''
        \<in> desc ` set (check conf token (Some p) None None ()) \<and>
      ''too few empty lines after document start''
        \<in> desc ` set (check conf token (Some p) None None ())\<close>
    by blast
next
  assume \<open>present conf \<and> cls p = DocumentStartToken \<and>
    0 \<le> max_empty_lines_after conf \<and>
    max_empty_lines_after conf < min_empty_lines_after conf \<and>
    max_empty_lines_after conf < empty_lines token p \<and>
    empty_lines token p < min_empty_lines_after conf\<close>
  then show \<open>check conf token (Some p) next nextnext context =
      [LintProblem (line (start_mark token) + 1) (column (start_mark token) + 1)
         ''too many empty lines after document start'',
       LintProblem (line (start_mark token) + 1) (column (start_mark token) + 1)
         ''too few empty lines after document start'']\<close>
    by (simp add: check_present_DocumentStart)
qed

theorem check_contradictory_bounds_witness:
  \<open>check \<lparr>present = True, max_empty_lines_after = 0, min_empty_lines_after = 2\<rparr>
     \<lparr>cls = OtherToken ''BlockMappingStartToken'', start_mark = \<lparr>line = 2, column = 0\<rparr>, end_mark = \<lparr>line = 2, column = 0\<rparr>\<rparr>
     (Some \<lparr>cls = DocumentStartToken, start_mark = \<lparr>line = 0, column = 0\<rparr>, end_mark = \<lparr>line = 0, column = 3\<rparr>\<rparr>)
     None None () =
   [LintProblem 3 1 ''too many empty lines after document start'',
    LintProblem 3 1 ''too few empty lines after document start'']\<close>
  using check_contradictory_bounds [of \<open>\<lparr>present = True, max_empty_lines_after = 0, min_empty_lines_after = 2\<rparr>\<close>
    \<open>\<lparr>cls = DocumentStartToken, start_mark = \<lparr>line = 0, column = 0\<rparr>, end_mark = \<lparr>line = 0, column = 3\<rparr>\<rparr>\<close>
    \<open>\<lparr>cls = OtherToken ''BlockMappingStartToken'', start_mark = \<lparr>line = 2, column = 0\<rparr>, end_mark = \<lparr>line = 2, column = 0\<rparr>\<rparr>\<close> None None \<open>()\<close>]
  by (simp add: empty_lines_def)

subsection \<open>What the check reads\<close>

text \<open>
  C5. The yielded problems are a function of the configuration, the previous token and
  the current token alone: two calls that agree on these three yield the same sequence,
  whatever their \<^verbatim>\<open>next\<close>, \<^verbatim>\<open>nextnext\<close> and \<^verbatim>\<open>context\<close> arguments are.
\<close>

theorem check_unused_arguments:
  "check conf token prev next nextnext context = check conf token prev next' nextnext' context'"
  by (simp add: check_def)

theorem check_unused_arguments_witness:
  \<open>check \<lparr>present = True, max_empty_lines_after = - 1, min_empty_lines_after = 0\<rparr>
     \<lparr>cls = OtherToken ''BlockMappingStartToken'', start_mark = \<lparr>line = 0, column = 0\<rparr>, end_mark = \<lparr>line = 0, column = 0\<rparr>\<rparr>
     (Some \<lparr>cls = StreamStartToken, start_mark = \<lparr>line = 0, column = 0\<rparr>, end_mark = \<lparr>line = 0, column = 0\<rparr>\<rparr>)
     None None () =
   check \<lparr>present = True, max_empty_lines_after = - 1, min_empty_lines_after = 0\<rparr>
     \<lparr>cls = OtherToken ''BlockMappingStartToken'', start_mark = \<lparr>line = 0, column = 0\<rparr>, end_mark = \<lparr>line = 0, column = 0\<rparr>\<rparr>
     (Some \<lparr>cls = StreamStartToken, start_mark = \<lparr>line = 0, column = 0\<rparr>, end_mark = \<lparr>line = 0, column = 0\<rparr>\<rparr>)
     (Some \<lparr>cls = DocumentStartToken, start_mark = \<lparr>line = 0, column = 0\<rparr>, end_mark = \<lparr>line = 0, column = 3\<rparr>\<rparr>)
     (Some \<lparr>cls = OtherToken ''BlockMappingStartToken'', start_mark = \<lparr>line = 1, column = 0\<rparr>, end_mark = \<lparr>line = 1, column = 0\<rparr>\<rparr>) True\<close>
  using check_unused_arguments [of \<open>\<lparr>present = True, max_empty_lines_after = - 1, min_empty_lines_after = 0\<rparr>\<close>
    \<open>\<lparr>cls = OtherToken ''BlockMappingStartToken'', start_mark = \<lparr>line = 0, column = 0\<rparr>, end_mark = \<lparr>line = 0, column = 0\<rparr>\<rparr>\<close>
    \<open>Some \<lparr>cls = StreamStartToken, start_mark = \<lparr>line = 0, column = 0\<rparr>, end_mark = \<lparr>line = 0, column = 0\<rparr>\<rparr>\<close> None None \<open>()\<close>
    \<open>Some \<lparr>cls = DocumentStartToken, start_mark = \<lparr>line = 0, column = 0\<rparr>, end_mark = \<lparr>line = 0, column = 3\<rparr>\<rparr>\<close>
    \<open>Some \<lparr>cls = OtherToken ''BlockMappingStartToken'', start_mark = \<lparr>line = 1, column = 0\<rparr>, end_mark = \<lparr>line = 1, column = 0\<rparr>\<rparr>\<close> True]
  by simp

subsection \<open>How many problems one call yields\<close>

text \<open>
  C6. One call yields at most two problems. When it yields two, they are the
  \<open>too many\<close> and the \<open>too few\<close> problem of the empty-line check, at the current
  token's line + 1 and column + 1. The \<open>missing document start\<close> problem and an
  empty-line problem are never yielded by the same call.
\<close>

theorem check_at_most_two:
  \<open>length (check conf token prev next nextnext context) \<le> 2 \<and>
   (length (check conf token prev next nextnext context) = 2 \<longrightarrow>
      check conf token prev next nextnext context =
        [LintProblem (line (start_mark token) + 1) (column (start_mark token) + 1)
           ''too many empty lines after document start'',
         LintProblem (line (start_mark token) + 1) (column (start_mark token) + 1)
           ''too few empty lines after document start'']) \<and>
   \<not> ((\<exists>x \<in> set (check conf token prev next nextnext context).
          desc x = ''missing document start "---"'') \<and>
       (\<exists>x \<in> set (check conf token prev next nextnext context).
          desc x = ''too many empty lines after document start'' \<or>
          desc x = ''too few empty lines after document start''))\<close>
proof (cases "present conf")
  case False
  then show ?thesis by (simp add: check_absent)
next
  case pr: True
  show ?thesis
  proof (cases prev)
    case None
    with pr show ?thesis by (simp add: check_present_None)
  next
    case (Some p)
    show ?thesis
    proof (cases "cls p = DocumentStartToken")
      case True
      with pr Some show ?thesis by (auto simp: check_present_DocumentStart)
    next
      case False
      with pr Some show ?thesis by (auto simp: check_present_Some)
    qed
  qed
qed

theorem check_at_most_two_witness:
  \<open>length (check \<lparr>present = True, max_empty_lines_after = 0, min_empty_lines_after = 2\<rparr>
     \<lparr>cls = OtherToken ''BlockMappingStartToken'', start_mark = \<lparr>line = 2, column = 0\<rparr>, end_mark = \<lparr>line = 2, column = 0\<rparr>\<rparr>
     (Some \<lparr>cls = DocumentStartToken, start_mark = \<lparr>line = 0, column = 0\<rparr>, end_mark = \<lparr>line = 0, column = 3\<rparr>\<rparr>)
     None None ()) = 2 \<and>
   check \<lparr>present = True, max_empty_lines_after = 0, min_empty_lines_after = 2\<rparr>
     \<lparr>cls = OtherToken ''BlockMappingStartToken'', start_mark = \<lparr>line = 2, column = 0\<rparr>, end_mark = \<lparr>line = 2, column = 0\<rparr>\<rparr>
     (Some \<lparr>cls = DocumentStartToken, start_mark = \<lparr>line = 0, column = 0\<rparr>, end_mark = \<lparr>line = 0, column = 3\<rparr>\<rparr>)
     None None () =
   [LintProblem 3 1 ''too many empty lines after document start'',
    LintProblem 3 1 ''too few empty lines after document start'']\<close>
  using check_at_most_two [of \<open>\<lparr>present = True, max_empty_lines_after = 0, min_empty_lines_after = 2\<rparr>\<close>
    \<open>\<lparr>cls = OtherToken ''BlockMappingStartToken'', start_mark = \<lparr>line = 2, column = 0\<rparr>, end_mark = \<lparr>line = 2, column = 0\<rparr>\<rparr>\<close>
    \<open>Some \<lparr>cls = DocumentStartToken, start_mark = \<lparr>line = 0, column = 0\<rparr>, end_mark = \<lparr>line = 0, column = 3\<rparr>\<rparr>\<close> None None \<open>()\<close>]
  by (simp add: check_present_DocumentStart empty_lines_def)

subsection \<open>The disabled upper bound\<close>

text \<open>
  C7. With a negative \<^verbatim>\<open>max-empty-lines-after\<close> (the default is -1) no call, whatever
  the tokens and the other two options, yields a problem with the message
  \<open>too many empty lines after document start\<close>.
\<close>

theorem check_max_disabled:
  \<open>max_empty_lines_after conf < 0 \<Longrightarrow>
   \<forall>x \<in> set (check conf token prev next nextnext context).
     desc x \<noteq> ''too many empty lines after document start''\<close>
proof (cases "present conf")
  case True
  assume "max_empty_lines_after conf < 0"
  with True show ?thesis by (auto dest!: in_check_present)
next
  case False
  then show ?thesis by (auto dest!: in_check_absent)
qed

theorem check_max_disabled_witness:
  \<open>max_empty_lines_after \<lparr>present = True, max_empty_lines_after = - 1, min_empty_lines_after = 0\<rparr> < 0 \<and>
   ''too many empty lines after document start''
     \<notin> desc ` set (check \<lparr>present = True, max_empty_lines_after = - 1, min_empty_lines_after = 0\<rparr>
     \<lparr>cls = OtherToken ''BlockMappingStartToken'', start_mark = \<lparr>line = 2, column = 0\<rparr>, end_mark = \<lparr>line = 2, column = 0\<rparr>\<rparr>
     (Some \<lparr>cls = DocumentStartToken, start_mark = \<lparr>line = 0, column = 0\<rparr>, end_mark = \<lparr>line = 0, column = 3\<rparr>\<rparr>)
     None None ())\<close>
  using check_max_disabled [of \<open>\<lparr>present = True, max_empty_lines_after = - 1, min_empty_lines_after = 0\<rparr>\<close>
    \<open>\<lparr>cls = OtherToken ''BlockMappingStartToken'', start_mark = \<lparr>line = 2, column = 0\<rparr>, end_mark = \<lparr>line = 2, column = 0\<rparr>\<rparr>\<close>
    \<open>Some \<lparr>cls = DocumentStartToken, start_mark = \<lparr>line = 0, column = 0\<rparr>, end_mark = \<lparr>line = 0, column = 3\<rparr>\<rparr>\<close> None None \<open>()\<close>]
  by auto

subsection \<open>Directives\<close>

text \<open>
  C8. When the current token is a directive, no yielded problem is
  \<open>missing document start "---"\<close> or \<open>found forbidden document start "---"\<close>, in
  either mode. A directive as the previous token still demands a marker: with
  \<^verbatim>\<open>present\<close> true and a current token that is none of a document start, a directive
  or a stream end, the check yields the \<open>missing document start "---"\<close> problem.
\<close>

theorem check_directive:
  \<open>(cls token = DirectiveToken \<longrightarrow>
      (\<forall>x \<in> set (check conf token prev next nextnext context).
         desc x \<noteq> ''missing document start "---"'' \<and>
         desc x \<noteq> ''found forbidden document start "---"'')) \<and>
   (present conf \<and> cls p = DirectiveToken \<and>
    cls token \<notin> {DocumentStartToken, DirectiveToken, StreamEndToken} \<longrightarrow>
      check conf token (Some p) next nextnext context =
        [LintProblem (line (start_mark token) + 1) 1 ''missing document start "---"''])\<close>
proof (intro conjI impI ballI)
  fix x
  assume d: "cls token = DirectiveToken"
    and x: "x \<in> set (check conf token prev next nextnext context)"
  show "desc x \<noteq> ''missing document start \"---\"''"
    using d x by (cases "present conf") (auto dest!: in_check_present in_check_absent)
  show "desc x \<noteq> ''found forbidden document start \"---\"''"
    using d x by (cases "present conf") (auto dest!: in_check_present in_check_absent)
next
  assume "present conf \<and> cls p = DirectiveToken \<and>
    cls token \<notin> {DocumentStartToken, DirectiveToken, StreamEndToken}"
  then show "check conf token (Some p) next nextnext context =
        [LintProblem (line (start_mark token) + 1) 1 ''missing document start \"---\"'']"
    by (simp add: check_present_opener)
qed

theorem check_directive_witness:
  \<open>cls \<lparr>cls = DirectiveToken, start_mark = \<lparr>line = 0, column = 0\<rparr>, end_mark = \<lparr>line = 0, column = 9\<rparr>\<rparr> = DirectiveToken \<and>
   ''missing document start "---"''
     \<notin> desc ` set (check \<lparr>present = True, max_empty_lines_after = - 1, min_empty_lines_after = 0\<rparr>
     \<lparr>cls = DirectiveToken, start_mark = \<lparr>line = 0, column = 0\<rparr>, end_mark = \<lparr>line = 0, column = 9\<rparr>\<rparr>
     (Some \<lparr>cls = StreamStartToken, start_mark = \<lparr>line = 0, column = 0\<rparr>, end_mark = \<lparr>line = 0, column = 0\<rparr>\<rparr>)
     None None ()) \<and>
   ''found forbidden document start "---"''
     \<notin> desc ` set (check \<lparr>present = True, max_empty_lines_after = - 1, min_empty_lines_after = 0\<rparr>
     \<lparr>cls = DirectiveToken, start_mark = \<lparr>line = 0, column = 0\<rparr>, end_mark = \<lparr>line = 0, column = 9\<rparr>\<rparr>
     (Some \<lparr>cls = StreamStartToken, start_mark = \<lparr>line = 0, column = 0\<rparr>, end_mark = \<lparr>line = 0, column = 0\<rparr>\<rparr>)
     None None ()) \<and>
   check \<lparr>present = True, max_empty_lines_after = - 1, min_empty_lines_after = 0\<rparr>
     \<lparr>cls = OtherToken ''BlockMappingStartToken'', start_mark = \<lparr>line = 1, column = 0\<rparr>, end_mark = \<lparr>line = 1, column = 0\<rparr>\<rparr>
     (Some \<lparr>cls = DirectiveToken, start_mark = \<lparr>line = 0, column = 0\<rparr>, end_mark = \<lparr>line = 0, column = 9\<rparr>\<rparr>)
     None None () =
   [LintProblem 2 1 ''missing document start "---"'']\<close>
  using check_directive [of \<open>\<lparr>cls = DirectiveToken, start_mark = \<lparr>line = 0, column = 0\<rparr>, end_mark = \<lparr>line = 0, column = 9\<rparr>\<rparr>\<close>
    \<open>\<lparr>present = True, max_empty_lines_after = - 1, min_empty_lines_after = 0\<rparr>\<close>
    \<open>Some \<lparr>cls = StreamStartToken, start_mark = \<lparr>line = 0, column = 0\<rparr>, end_mark = \<lparr>line = 0, column = 0\<rparr>\<rparr>\<close> None None \<open>()\<close>
    \<open>\<lparr>cls = DirectiveToken, start_mark = \<lparr>line = 0, column = 0\<rparr>, end_mark = \<lparr>line = 0, column = 9\<rparr>\<rparr>\<close>]
    check_directive [of \<open>\<lparr>cls = OtherToken ''BlockMappingStartToken'', start_mark = \<lparr>line = 1, column = 0\<rparr>, end_mark = \<lparr>line = 1, column = 0\<rparr>\<rparr>\<close>
    \<open>\<lparr>present = True, max_empty_lines_after = - 1, min_empty_lines_after = 0\<rparr>\<close>
    \<open>Some \<lparr>cls = DirectiveToken, start_mark = \<lparr>line = 0, column = 0\<rparr>, end_mark = \<lparr>line = 0, column = 9\<rparr>\<rparr>\<close> None None \<open>()\<close>
    \<open>\<lparr>cls = DirectiveToken, start_mark = \<lparr>line = 0, column = 0\<rparr>, end_mark = \<lparr>line = 0, column = 9\<rparr>\<rparr>\<close>]
  by auto

subsection \<open>Positions\<close>

text \<open>
  C9. For a current token whose 0-indexed start line and column are not negative, every
  yielded problem has the line \<^verbatim>\<open>token.start_mark.line + 1\<close>, which is at least 1, and
  a column that is 1 for the \<open>missing document start "---"\<close> problem and
  \<^verbatim>\<open>token.start_mark.column + 1\<close> for every other problem, hence at least 1 too.
\<close>

theorem check_positions:
  \<open>0 \<le> line (start_mark token) \<Longrightarrow> 0 \<le> column (start_mark token) \<Longrightarrow>
   x \<in> set (check conf token prev next nextnext context) \<Longrightarrow>
   lp_line x = line (start_mark token) + 1 \<and> 1 \<le> lp_line x \<and>
   lp_column x = (if desc x = ''missing document start "---"'' then 1
                  else column (start_mark token) + 1) \<and>
   1 \<le> lp_column x\<close>
  by (cases "present conf") (auto dest!: in_check_present in_check_absent)

theorem check_positions_witness:
  \<open>LintProblem 1 1 ''missing document start "---"''
     \<in> set (check \<lparr>present = True, max_empty_lines_after = - 1, min_empty_lines_after = 0\<rparr>
     \<lparr>cls = OtherToken ''BlockMappingStartToken'', start_mark = \<lparr>line = 0, column = 0\<rparr>, end_mark = \<lparr>line = 0, column = 0\<rparr>\<rparr>
     (Some \<lparr>cls = StreamStartToken, start_mark = \<lparr>line = 0, column = 0\<rparr>, end_mark = \<lparr>line = 0, column = 0\<rparr>\<rparr>)
     None None ()) \<and>
   lp_line (LintProblem 1 1 ''missing document start "---"'') = 0 + 1 \<and>
   lp_column (LintProblem 1 1 ''missing document start "---"'') = 1\<close>
  using check_positions [of \<open>\<lparr>cls = OtherToken ''BlockMappingStartToken'', start_mark = \<lparr>line = 0, column = 0\<rparr>, end_mark = \<lparr>line = 0, column = 0\<rparr>\<rparr>\<close>
    \<open>LintProblem 1 1 ''missing document start "---"''\<close>
    \<open>\<lparr>present = True, max_empty_lines_after = - 1, min_empty_lines_after = 0\<rparr>\<close>
    \<open>Some \<lparr>cls = StreamStartToken, start_mark = \<lparr>line = 0, column = 0\<rparr>, end_mark = \<lparr>line = 0, column = 0\<rparr>\<rparr>\<close> None None \<open>()\<close>]
  by (simp add: check_present_opener)

subsection \<open>A token on the marker's line\<close>

text \<open>
  C10. \<open>empty_lines\<close> is not clamped at zero: with \<^verbatim>\<open>present\<close> true, a previous
  token that is a document start and a current token that starts on the same line,
  \<open>empty_lines\<close> is -1. Then no \<open>too many\<close> problem is yielded, and the
  \<open>too few\<close> problem is yielded whenever \<^verbatim>\<open>min-empty-lines-after\<close> is at least 1.
\<close>

theorem check_same_line:
  \<open>present conf \<Longrightarrow> cls p = DocumentStartToken \<Longrightarrow>
   line (start_mark token) = line (start_mark p) \<Longrightarrow>
   empty_lines token p = - 1 \<and>
   (\<forall>x \<in> set (check conf token (Some p) next nextnext context).
      desc x \<noteq> ''too many empty lines after document start'') \<and>
   (1 \<le> min_empty_lines_after conf \<longrightarrow>
      check conf token (Some p) next nextnext context =
        [LintProblem (line (start_mark token) + 1) (column (start_mark token) + 1)
           ''too few empty lines after document start''])\<close>
  by (auto simp: check_present_DocumentStart empty_lines_def)

theorem check_same_line_witness:
  \<open>empty_lines \<lparr>cls = OtherToken ''ScalarToken'', start_mark = \<lparr>line = 0, column = 4\<rparr>, end_mark = \<lparr>line = 0, column = 8\<rparr>\<rparr>
     \<lparr>cls = DocumentStartToken, start_mark = \<lparr>line = 0, column = 0\<rparr>, end_mark = \<lparr>line = 0, column = 3\<rparr>\<rparr> = - 1 \<and>
   ''too many empty lines after document start''
     \<notin> desc ` set (check \<lparr>present = True, max_empty_lines_after = 0, min_empty_lines_after = 1\<rparr>
     \<lparr>cls = OtherToken ''ScalarToken'', start_mark = \<lparr>line = 0, column = 4\<rparr>, end_mark = \<lparr>line = 0, column = 8\<rparr>\<rparr>
     (Some \<lparr>cls = DocumentStartToken, start_mark = \<lparr>line = 0, column = 0\<rparr>, end_mark = \<lparr>line = 0, column = 3\<rparr>\<rparr>)
     None None ()) \<and>
   check \<lparr>present = True, max_empty_lines_after = 0, min_empty_lines_after = 1\<rparr>
     \<lparr>cls = OtherToken ''ScalarToken'', start_mark = \<lparr>line = 0, column = 4\<rparr>, end_mark = \<lparr>line = 0, column = 8\<rparr>\<rparr>
     (Some \<lparr>cls = DocumentStartToken, start_mark = \<lparr>line = 0, column = 0\<rparr>, end_mark = \<lparr>line = 0, column = 3\<rparr>\<rparr>)
     None None () =
   [LintProblem 1 5 ''too few empty lines after document start'']\<close>
  using check_same_line [of \<open>\<lparr>present = True, max_empty_lines_after = 0, min_empty_lines_after = 1\<rparr>\<close>
    \<open>\<lparr>cls = DocumentStartToken, start_mark = \<lparr>line = 0, column = 0\<rparr>, end_mark = \<lparr>line = 0, column = 3\<rparr>\<rparr>\<close>
    \<open>\<lparr>cls = OtherToken ''ScalarToken'', start_mark = \<lparr>line = 0, column = 4\<rparr>, end_mark = \<lparr>line = 0, column = 8\<rparr>\<rparr>\<close> None None \<open>()\<close>]
  by auto

end
